theory Spec2Isabelle
  imports Complex_Main "HOL-Library.Multiset"
begin

section \<open>Forward kinematics of the hexapod: the model of \<open>hexapod/models.py\<close>\<close>

text \<open>
  Numbers are modelled as \<^typ>\<open>real\<close>: the theory is about the arithmetic the program
  writes down, not about the rounding of IEEE doubles. A frame (a numpy array of four rows
  of four numbers) is a 4-tuple of 4-tuples, rows first; every frame the program builds or
  multiplies has that shape, so numpy's shape errors are excluded by the type.
\<close>

subsection \<open>Exceptions\<close>

text \<open>
  \<open>IndexError\<close> is what Python raises for a list index out of range.
  \<open>InvalidMeasurement\<close> is the exception the specification names for bad dimensions;
  no statement of the source raises it.
\<close>

datatype error = IndexError | InvalidMeasurement

subsection \<open>Frames\<close>

type_synonym vec4 = "real \<times> real \<times> real \<times> real"
type_synonym mat4 = "vec4 \<times> vec4 \<times> vec4 \<times> vec4"

definition radians :: "real \<Rightarrow> real" where
  "radians d = d * pi / 180"

fun dot4 :: "vec4 \<Rightarrow> vec4 \<Rightarrow> real" where
  "dot4 (u0, u1, u2, u3) (v0, v1, v2, v3) = u0 * v0 + u1 * v1 + u2 * v2 + u3 * v3"

text \<open>\<open>np.matmul\<close> of a 4x4 array and a vector of length 4.\<close>

fun matvec :: "mat4 \<Rightarrow> vec4 \<Rightarrow> vec4" where
  "matvec (r0, r1, r2, r3) v = (dot4 r0 v, dot4 r1 v, dot4 r2 v, dot4 r3 v)"

fun column :: "nat \<Rightarrow> mat4 \<Rightarrow> vec4" where
  "column j ((a00, a01, a02, a03), (a10, a11, a12, a13),
             (a20, a21, a22, a23), (a30, a31, a32, a33)) =
     (if j = 0 then (a00, a10, a20, a30)
      else if j = 1 then (a01, a11, a21, a31)
      else if j = 2 then (a02, a12, a22, a32)
      else (a03, a13, a23, a33))"

definition row_times :: "vec4 \<Rightarrow> mat4 \<Rightarrow> vec4" where
  "row_times r B = (dot4 r (column 0 B), dot4 r (column 1 B),
                    dot4 r (column 2 B), dot4 r (column 3 B))"

text \<open>\<open>np.matmul\<close> of two 4x4 arrays.\<close>

fun matmul :: "mat4 \<Rightarrow> mat4 \<Rightarrow> mat4" where
  "matmul (r0, r1, r2, r3) B = (row_times r0 B, row_times r1 B, row_times r2 B, row_times r3 B)"

definition frame_yrotate_xtranslate :: "real \<Rightarrow> real \<Rightarrow> mat4" where
  "frame_yrotate_xtranslate theta x =
     (let theta = radians theta;
          cos_theta = cos theta;
          sin_theta = sin theta
      in ((cos_theta, 0, sin_theta, x),
          (0, 1, 0, 0),
          (- sin_theta, 0, cos_theta, 0),
          (0, 0, 0, 1)))"

definition frame_zrotate_xytranslate :: "real \<Rightarrow> real \<Rightarrow> real \<Rightarrow> mat4" where
  "frame_zrotate_xytranslate theta x y =
     (let theta = radians theta;
          cos_theta = cos theta;
          sin_theta = sin theta
      in ((cos_theta, - sin_theta, 0, x),
          (sin_theta, cos_theta, 0, y),
          (0, 0, 1, 0),
          (0, 0, 0, 1)))"

subsection \<open>Point\<close>

text \<open>
  The attributes \<open>x\<close>, \<open>y\<close>, \<open>z\<close>, \<open>name\<close> of the class carry the prefix
  \<open>pt_\<close>, so that one-letter variables stay free in the statements below.
\<close>

record Point =
  pt_x :: real
  pt_y :: real
  pt_z :: real
  pt_name :: "string option"

definition Point_init :: "real \<Rightarrow> real \<Rightarrow> real \<Rightarrow> string option \<Rightarrow> Point" where
  "Point_init x y z name = \<lparr>pt_x = x, pt_y = y, pt_z = z, pt_name = name\<rparr>"

definition get_point_wrt :: "Point \<Rightarrow> mat4 \<Rightarrow> Point" where
  "get_point_wrt self reference_frame =
     (let p = (pt_x self, pt_y self, pt_z self, 1);
          p = matvec reference_frame p
      in case p of (q0, q1, q2, q3) \<Rightarrow> Point_init q0 q1 q2 None)"

text \<open>The coordinates of a point, without its advisory name.\<close>

definition coords :: "Point \<Rightarrow> real \<times> real \<times> real" where
  "coords p = (pt_x p, pt_y p, pt_z p)"

subsection \<open>Linkage\<close>

text \<open>
  The attributes \<open>_a\<close>, \<open>_b\<close>, \<open>_c\<close>, \<open>_alpha\<close>, \<open>_beta\<close>, \<open>_gamma\<close>,
  \<open>_new_origin\<close>, \<open>_new_x_axis\<close> and \<open>name\<close> carry the prefix \<open>l_\<close> (an
  identifier cannot start with an underscore).
\<close>

record Linkage =
  l_name :: "string option"
  l_a :: real
  l_b :: real
  l_c :: real
  l_new_origin :: Point
  l_new_x_axis :: real
  l_alpha :: real
  l_beta :: real
  l_gamma :: real
  p0 :: Point
  p1 :: Point
  p2 :: Point
  p3 :: Point

definition save_new_pose :: "real \<Rightarrow> real \<Rightarrow> real \<Rightarrow> Linkage \<Rightarrow> Linkage" where
  "save_new_pose alpha beta gamma self =
     (let self = self\<lparr>l_alpha := alpha, l_beta := beta, l_gamma := gamma\<rparr>;
          frame_01 = frame_yrotate_xtranslate (- l_beta self) (l_a self);
          frame_12 = frame_yrotate_xtranslate (90 - l_gamma self) (l_b self);
          frame_23 = frame_yrotate_xtranslate 0 (l_c self);
          frame_02 = matmul frame_01 frame_12;
          frame_03 = matmul frame_02 frame_23;
          new_frame = frame_zrotate_xytranslate (l_new_x_axis self + l_alpha self)
                        (pt_x (l_new_origin self)) (pt_y (l_new_origin self));
          q0 = Point_init 0 0 0 None;
          q1 = get_point_wrt q0 frame_01;
          q2 = get_point_wrt q0 frame_02;
          q3 = get_point_wrt q0 frame_03;
          self = self\<lparr>p0 := l_new_origin self\<rparr>;
          self = self\<lparr>p1 := get_point_wrt q1 new_frame\<rparr>;
          self = self\<lparr>p2 := get_point_wrt q2 new_frame\<rparr>;
          self = self\<lparr>p3 := get_point_wrt q3 new_frame\<rparr>;
          self = self\<lparr>p1 := (p1 self)\<lparr>pt_name := Some ''body_contact''\<rparr>\<rparr>;
          self = self\<lparr>p1 := (p1 self)\<lparr>pt_name := Some ''coxia''\<rparr>\<rparr>;
          self = self\<lparr>p2 := (p2 self)\<lparr>pt_name := Some ''femur''\<rparr>\<rparr>;
          self = self\<lparr>p3 := (p3 self)\<lparr>pt_name := Some ''tibia''\<rparr>\<rparr>
      in self)"

text \<open>
  \<open>store_linkage_attributes\<close> and \<open>save_new_pose\<close> together assign every attribute
  of a new object. The record that \<open>store_linkage_attributes\<close> starts from holds the
  constructor's arguments; \<open>save_new_pose\<close> overwrites the angles and the four points.
\<close>

definition store_linkage_attributes ::
    "real \<Rightarrow> real \<Rightarrow> real \<Rightarrow> real \<Rightarrow> Point \<Rightarrow> Linkage \<Rightarrow> Linkage" where
  "store_linkage_attributes a b c new_x_axis new_origin self =
     self\<lparr>l_a := a, l_b := b, l_c := c, l_new_origin := new_origin, l_new_x_axis := new_x_axis\<rparr>"

definition Linkage_init ::
    "real \<Rightarrow> real \<Rightarrow> real \<Rightarrow> real \<Rightarrow> real \<Rightarrow> real \<Rightarrow> real \<Rightarrow> Point \<Rightarrow> string option
      \<Rightarrow> error + Linkage" where
  "Linkage_init a b c alpha beta gamma new_x_axis new_origin name =
     (let self = \<lparr>l_name = name, l_a = a, l_b = b, l_c = c, l_new_origin = new_origin,
                  l_new_x_axis = new_x_axis, l_alpha = alpha, l_beta = beta, l_gamma = gamma,
                  p0 = new_origin, p1 = new_origin, p2 = new_origin, p3 = new_origin\<rparr>;
          self = store_linkage_attributes a b c new_x_axis new_origin self;
          self = save_new_pose alpha beta gamma self
      in Inr self)"

text \<open>
  Python's \<open>v or d\<close> for an optional number \<open>v\<close>: \<open>None\<close> and \<open>0\<close> are the
  falsy values, for which the expression is \<open>d\<close>.
\<close>

definition py_or :: "real option \<Rightarrow> real \<Rightarrow> real" where
  "py_or v d = (case v of None \<Rightarrow> d | Some w \<Rightarrow> if w = 0 then d else w)"

definition change_pose :: "real option \<Rightarrow> real option \<Rightarrow> real option \<Rightarrow> Linkage \<Rightarrow> Linkage" where
  "change_pose alpha beta gamma self =
     (let alpha = py_or alpha (l_alpha self);
          beta = py_or beta (l_beta self);
          gamma = py_or gamma (l_gamma self)
      in save_new_pose alpha beta gamma self)"

definition toe :: "Linkage \<Rightarrow> Point" where
  "toe self = p3 self"

definition floor_height :: "Linkage \<Rightarrow> real" where
  "floor_height self = - pt_z (p3 self)"

subsection \<open>Hexagon\<close>

record Hexagon =
  hex_f :: real
  hex_m :: real
  hex_s :: real
  cog :: Point
  head :: Point
  vertices :: "Point list"

definition VERTEX_NAMES :: "string list" where
  "VERTEX_NAMES = [''right-middle'', ''right-front'', ''left-front'',
                   ''left-middle'', ''left-back'', ''right-back'']"

definition NEW_X_AXES :: "real list" where
  "NEW_X_AXES = [0, 45, 135, 180, 225, 315]"

definition Hexagon_init :: "real \<Rightarrow> real \<Rightarrow> real \<Rightarrow> Hexagon" where
  "Hexagon_init f m s =
     \<lparr>hex_f = f, hex_m = m, hex_s = s,
      cog = Point_init 0 0 0 None,
      head = Point_init 0 s 0 None,
      vertices = [Point_init m 0 0 None,
                  Point_init f s 0 None,
                  Point_init (- f) s 0 None,
                  Point_init (- m) 0 0 None,
                  Point_init (- f) (- s) 0 None,
                  Point_init f (- s) 0 None]\<rparr>"

subsection \<open>VirtualHexapod\<close>

record VirtualHexapod =
  linkage_measurements :: "real list"
  body_measurements :: "real list"
  body :: Hexagon
  legs :: "Linkage list"

text \<open>The loop of \<open>store_neutral_legs\<close> over the zipped vertices, headings and names.\<close>

fun neutral_legs_loop ::
    "real \<Rightarrow> real \<Rightarrow> real \<Rightarrow> (Point \<times> real \<times> string) list \<Rightarrow> Linkage list
      \<Rightarrow> error + Linkage list" where
  "neutral_legs_loop a b c [] acc = Inr acc"
| "neutral_legs_loop a b c ((point, theta, name) # rest) acc =
     (case Linkage_init a b c 0 0 0 theta point (Some name) of
        Inl e \<Rightarrow> Inl e
      | Inr linkage \<Rightarrow> neutral_legs_loop a b c rest (acc @ [linkage]))"

definition store_neutral_legs ::
    "real \<Rightarrow> real \<Rightarrow> real \<Rightarrow> VirtualHexapod \<Rightarrow> error + VirtualHexapod" where
  "store_neutral_legs a b c self =
     (case neutral_legs_loop a b c
             (zip (vertices (body self)) (zip NEW_X_AXES VERTEX_NAMES)) [] of
        Inl e \<Rightarrow> Inl e
      | Inr ls \<Rightarrow> Inr (self\<lparr>legs := ls\<rparr>))"

definition VirtualHexapod_init ::
    "real \<Rightarrow> real \<Rightarrow> real \<Rightarrow> real \<Rightarrow> real \<Rightarrow> real \<Rightarrow> error + VirtualHexapod" where
  "VirtualHexapod_init a b c f m s =
     store_neutral_legs a b c
       \<lparr>linkage_measurements = [a, b, c],
        body_measurements = [f, m, s],
        body = Hexagon_init f m s,
        legs = []\<rparr>"

text \<open>
  \<open>sorted(xs, key=key, reverse=True)\<close>: the list is reversed, sorted by a stable
  ascending sort, and reversed again, which is how Python keeps the sort stable when
  \<open>reverse\<close> is set.
\<close>

definition sorted_reverse :: "('a \<Rightarrow> real) \<Rightarrow> 'a list \<Rightarrow> 'a list" where
  "sorted_reverse key xs = rev (sort_key key (rev xs))"

text \<open>\<open>xs[i]\<close> for an index that is not negative.\<close>

definition index :: "'a list \<Rightarrow> nat \<Rightarrow> error + 'a" where
  "index xs i = (if i < length xs then Inr (xs ! i) else Inl IndexError)"

text \<open>The \<open>for\<close> loop of \<open>find_feet_on_ground\<close>, which stops at the first leg below the threshold.\<close>

fun feet_loop :: "real \<Rightarrow> Linkage list \<Rightarrow> Linkage list \<Rightarrow> Linkage list" where
  "feet_loop threshold [] feet_on_floor = feet_on_floor"
| "feet_loop threshold (leg # rest) feet_on_floor =
     (if floor_height leg \<ge> threshold
      then feet_loop threshold rest (feet_on_floor @ [leg])
      else feet_on_floor)"

definition find_feet_on_ground ::
    "VirtualHexapod \<Rightarrow> error + (Linkage list option \<times> Linkage option)" where
  "find_feet_on_ground self =
     (let sorted_legs = sorted_reverse floor_height (legs self) in
      case index sorted_legs 0 of
        Inl e \<Rightarrow> Inl e
      | Inr first \<Rightarrow>
          if floor_height first \<le> 0 then Inr (None, None)
          else
            let tolerance = 2 in
            (case index sorted_legs 2 of
               Inl e \<Rightarrow> Inl e
             | Inr third \<Rightarrow>
                 let threshold = floor_height third - tolerance;
                     feet_on_floor = feet_loop threshold sorted_legs [];
                     pivot_foot = (if length feet_on_floor > 0
                                   then Some (feet_on_floor ! 0) else None)
                 in Inr (Some feet_on_floor, pivot_foot)))"

subsection \<open>Properties of frames used by the statements\<close>

type_synonym vec3 = "real \<times> real \<times> real"
type_synonym mat3 = "vec3 \<times> vec3 \<times> vec3"

fun bottom_row :: "mat4 \<Rightarrow> vec4" where
  "bottom_row (r0, r1, r2, r3) = r3"

fun rotation_block :: "mat4 \<Rightarrow> mat3" where
  "rotation_block ((a00, a01, a02, a03), (a10, a11, a12, a13), (a20, a21, a22, a23), r3) =
     ((a00, a01, a02), (a10, a11, a12), (a20, a21, a22))"

fun dot3 :: "vec3 \<Rightarrow> vec3 \<Rightarrow> real" where
  "dot3 (u0, u1, u2) (v0, v1, v2) = u0 * v0 + u1 * v1 + u2 * v2"

fun transpose3 :: "mat3 \<Rightarrow> mat3" where
  "transpose3 ((a00, a01, a02), (a10, a11, a12), (a20, a21, a22)) =
     ((a00, a10, a20), (a01, a11, a21), (a02, a12, a22))"

text \<open>Rows of unit length that are pairwise orthogonal.\<close>

fun orthonormal_rows :: "mat3 \<Rightarrow> bool" where
  "orthonormal_rows (r0, r1, r2) =
     (dot3 r0 r0 = 1 \<and> dot3 r1 r1 = 1 \<and> dot3 r2 r2 = 1 \<and>
      dot3 r0 r1 = 0 \<and> dot3 r0 r2 = 0 \<and> dot3 r1 r2 = 0)"

definition orthonormal :: "mat3 \<Rightarrow> bool" where
  "orthonormal R = (orthonormal_rows R \<and> orthonormal_rows (transpose3 R))"

fun det3 :: "mat3 \<Rightarrow> real" where
  "det3 ((a00, a01, a02), (a10, a11, a12), (a20, a21, a22)) =
     a00 * (a11 * a22 - a12 * a21) - a01 * (a10 * a22 - a12 * a20)
       + a02 * (a10 * a21 - a11 * a20)"

definition rigid_transform :: "mat4 \<Rightarrow> bool" where
  "rigid_transform F =
     (bottom_row F = (0, 0, 0, 1) \<and> orthonormal (rotation_block F) \<and> det3 (rotation_block F) = 1)"

definition identity4 :: mat4 where
  "identity4 = ((1, 0, 0, 0), (0, 1, 0, 0), (0, 0, 1, 0), (0, 0, 0, 1))"

text \<open>
  The inverse of a rigid transform with rotation block \<open>R\<close> and translation \<open>t\<close>:
  rotation block \<open>R\<^sup>T\<close>, translation \<open>- R\<^sup>T t\<close>. The program has no such function;
  it is what the round-trip property applies after \<open>get_point_wrt\<close>.
\<close>

fun frame_inverse :: "mat4 \<Rightarrow> mat4" where
  "frame_inverse ((a00, a01, a02, t0), (a10, a11, a12, t1), (a20, a21, a22, t2), r3) =
     ((a00, a10, a20, - (a00 * t0 + a10 * t1 + a20 * t2)),
      (a01, a11, a21, - (a01 * t0 + a11 * t1 + a21 * t2)),
      (a02, a12, a22, - (a02 * t0 + a12 * t1 + a22 * t2)),
      (0, 0, 0, 1))"

subsection \<open>What a stable descending sort is\<close>

text \<open>
  \<open>ys\<close> is \<open>xs\<close> sorted by \<open>key\<close>, largest first, with ties left in their
  original order: the same elements, keys that never increase, and, for every key value,
  the elements having that key in the order they have in \<open>xs\<close>.
\<close>

definition stable_sorted_desc :: "('a \<Rightarrow> real) \<Rightarrow> 'a list \<Rightarrow> 'a list \<Rightarrow> bool" where
  "stable_sorted_desc key xs ys =
     (mset ys = mset xs \<and>
      sorted_wrt (\<lambda>u v. key u \<ge> key v) ys \<and>
      (\<forall>k. filter (\<lambda>u. key u = k) ys = filter (\<lambda>u. key u = k) xs))"

subsection \<open>An example state\<close>

text \<open>
  The hexapod built with \<open>a = 100\<close>, \<open>b = 80\<close>, \<open>c = 120\<close>, \<open>f = 1\<close>,
  \<open>m = 2\<close>, \<open>s = 3\<close>, after \<open>legs[i].change_pose(gamma=180)\<close> for the legs 0, 1
  and 2: their tibias point up, so the floor heights of the six legs are
  \<open>-120, -120, -120, 120, 120, 120\<close>.
\<close>

definition example_hexapod :: VirtualHexapod where
  "example_hexapod =
     (let h = projr (VirtualHexapod_init 100 80 120 1 2 3)
      in h\<lparr>legs := map (change_pose None None (Some 180)) (take 3 (legs h)) @ drop 3 (legs h)\<rparr>)"

section \<open>Hexagon layout\<close>

text \<open>
  C8. For \<open>f = 1\<close>, \<open>m = 2\<close>, \<open>s = 3\<close> the hexagon has \<open>vertices[0] = (2, 0, 0)\<close> and
  \<open>vertices[1] = (1, 3, 0)\<close>; for every \<open>f\<close>, \<open>m\<close>, \<open>s\<close> the six vertices sum to
  \<open>(0, 0, 0)\<close> in each coordinate.
\<close>

theorem hexagon_vertices_symmetry:
  "coords (vertices (Hexagon_init 1 2 3) ! 0) = (2, 0, 0) \<and>
   coords (vertices (Hexagon_init 1 2 3) ! 1) = (1, 3, 0) \<and>
   length (vertices (Hexagon_init f m s)) = 6 \<and>
   sum_list (map pt_x (vertices (Hexagon_init f m s))) = 0 \<and>
   sum_list (map pt_y (vertices (Hexagon_init f m s))) = 0 \<and>
   sum_list (map pt_z (vertices (Hexagon_init f m s))) = 0"
  by (simp add: Hexagon_init_def Point_init_def coords_def)

section \<open>Transform builders\<close>

lemma trig_unit: "u * (cos t * cos t) + u * (sin t * sin t) = (u::real)"
proof -
  have "cos t * cos t + sin t * sin t = (1::real)"
    by (rule sin_cos_squared_add3)
  then have "u * (cos t * cos t + sin t * sin t) = u"
    by simp
  then show ?thesis
    by (simp only: distrib_left)
qed

text \<open>
  C7. For every angle and every translation, the frames built by
  \<open>frame_yrotate_xtranslate\<close> and \<open>frame_zrotate_xytranslate\<close> are rigid transforms:
  the bottom row is \<open>[0, 0, 0, 1]\<close>, and the upper-left 3x3 block is orthonormal and has
  determinant 1.
\<close>

theorem builders_rigid_transform:
  "rigid_transform (frame_yrotate_xtranslate theta x) \<and>
   rigid_transform (frame_zrotate_xytranslate theta x y)"
  by (simp add: rigid_transform_def orthonormal_def frame_yrotate_xtranslate_def
      frame_zrotate_xytranslate_def Let_def algebra_simps)

text \<open>
  C9. For a frame \<open>F\<close> built by either builder and any point \<open>P\<close>: \<open>frame_inverse F\<close>
  is the inverse of \<open>F\<close> (their products in both orders are the identity), and
  \<open>get_point_wrt\<close> with \<open>F\<close> followed by \<open>get_point_wrt\<close> with that inverse gives
  back the coordinates \<open>(x, y, z)\<close> of \<open>P\<close>, exactly over the reals.
\<close>

theorem get_point_wrt_roundtrip:
  "matmul (frame_inverse (frame_yrotate_xtranslate theta x)) (frame_yrotate_xtranslate theta x)
     = identity4 \<and>
   matmul (frame_yrotate_xtranslate theta x) (frame_inverse (frame_yrotate_xtranslate theta x))
     = identity4 \<and>
   coords (get_point_wrt (get_point_wrt P (frame_yrotate_xtranslate theta x))
             (frame_inverse (frame_yrotate_xtranslate theta x))) = coords P \<and>
   matmul (frame_inverse (frame_zrotate_xytranslate theta x y))
       (frame_zrotate_xytranslate theta x y) = identity4 \<and>
   matmul (frame_zrotate_xytranslate theta x y)
       (frame_inverse (frame_zrotate_xytranslate theta x y)) = identity4 \<and>
   coords (get_point_wrt (get_point_wrt P (frame_zrotate_xytranslate theta x y))
             (frame_inverse (frame_zrotate_xytranslate theta x y))) = coords P"
  by (simp add: frame_yrotate_xtranslate_def frame_zrotate_xytranslate_def Let_def
      identity4_def row_times_def get_point_wrt_def coords_def Point_init_def
      algebra_simps trig_unit sin_cos_squared_add3)

section \<open>Linkage\<close>

lemma save_new_pose_frame:
  "l_name (save_new_pose al be ga l) = l_name l"
  "l_a (save_new_pose al be ga l) = l_a l"
  "l_b (save_new_pose al be ga l) = l_b l"
  "l_c (save_new_pose al be ga l) = l_c l"
  "l_new_origin (save_new_pose al be ga l) = l_new_origin l"
  "l_new_x_axis (save_new_pose al be ga l) = l_new_x_axis l"
  by (simp_all add: save_new_pose_def Let_def)

lemma save_new_pose_angles:
  "l_alpha (save_new_pose al be ga l) = al"
  "l_beta (save_new_pose al be ga l) = be"
  "l_gamma (save_new_pose al be ga l) = ga"
  by (simp_all add: save_new_pose_def Let_def)

lemma save_new_pose_p0: "p0 (save_new_pose al be ga l) = l_new_origin l"
  by (simp add: save_new_pose_def Let_def)

lemma save_new_pose_overwrites:
  "save_new_pose al be ga l =
     l\<lparr>l_alpha := al, l_beta := be, l_gamma := ga,
       p0 := p0 (save_new_pose al be ga l), p1 := p1 (save_new_pose al be ga l),
       p2 := p2 (save_new_pose al be ga l), p3 := p3 (save_new_pose al be ga l)\<rparr>"
  by (simp add: save_new_pose_def Let_def)

lemma Linkage_init_Inr:
  "Linkage_init a b c al be ga nx no nm =
     Inr (save_new_pose al be ga
       \<lparr>l_name = nm, l_a = a, l_b = b, l_c = c, l_new_origin = no,
        l_new_x_axis = nx, l_alpha = al, l_beta = be, l_gamma = ga,
        p0 = no, p1 = no, p2 = no, p3 = no\<rparr>)"
  by (simp add: Linkage_init_def store_linkage_attributes_def Let_def)

text \<open>
  The points that \<open>save_new_pose\<close> derives, in closed form: the chain of frames
  multiplied out.
\<close>

lemma save_new_pose_points:
  "p0 (save_new_pose al be ga l) = l_new_origin l \<and>
   p1 (save_new_pose al be ga l) =
     \<lparr>pt_x = cos (radians (l_new_x_axis l + al)) * l_a l + pt_x (l_new_origin l),
      pt_y = sin (radians (l_new_x_axis l + al)) * l_a l + pt_y (l_new_origin l),
      pt_z = 0,
      pt_name = Some ''coxia''\<rparr> \<and>
   p2 (save_new_pose al be ga l) =
     \<lparr>pt_x = cos (radians (l_new_x_axis l + al))
               * (cos (radians (- be)) * l_b l + l_a l) + pt_x (l_new_origin l),
      pt_y = sin (radians (l_new_x_axis l + al))
               * (cos (radians (- be)) * l_b l + l_a l) + pt_y (l_new_origin l),
      pt_z = - sin (radians (- be)) * l_b l,
      pt_name = Some ''femur''\<rparr> \<and>
   p3 (save_new_pose al be ga l) =
     \<lparr>pt_x = cos (radians (l_new_x_axis l + al))
               * ((cos (radians (- be)) * cos (radians (90 - ga))
                    - sin (radians (- be)) * sin (radians (90 - ga))) * l_c l
                  + cos (radians (- be)) * l_b l + l_a l) + pt_x (l_new_origin l),
      pt_y = sin (radians (l_new_x_axis l + al))
               * ((cos (radians (- be)) * cos (radians (90 - ga))
                    - sin (radians (- be)) * sin (radians (90 - ga))) * l_c l
                  + cos (radians (- be)) * l_b l + l_a l) + pt_y (l_new_origin l),
      pt_z = (- sin (radians (- be)) * cos (radians (90 - ga))
                - cos (radians (- be)) * sin (radians (90 - ga))) * l_c l
             - sin (radians (- be)) * l_b l,
      pt_name = Some ''tibia''\<rparr>"
  by (simp add: save_new_pose_def Let_def frame_yrotate_xtranslate_def
      frame_zrotate_xytranslate_def get_point_wrt_def Point_init_def row_times_def
      radians_def algebra_simps)


text \<open>
  C1, as the program computes it. For the linkage with \<open>a = 100\<close>, \<open>b = 80\<close>,
  \<open>c = 120\<close>, all three angles 0, heading 0 and origin \<open>(0, 0, 0)\<close>, construction
  succeeds and the derived points are \<open>p1 = (100, 0, 0)\<close>, \<open>p2 = (180, 0, 0)\<close> and
  \<open>p3 = (180, 0, -120)\<close>: at the neutral pose the femur continues the coxia along the
  x axis and the tibia points straight down.
\<close>

theorem neutral_pose_points:
  "\<exists>l. Linkage_init 100 80 120 0 0 0 0 (Point_init 0 0 0 None) None = Inr l \<and>
       coords (p1 l) = (100, 0, 0) \<and>
       coords (p2 l) = (180, 0, 0) \<and>
       coords (p3 l) = (180, 0, - 120)"
  by (simp add: Linkage_init_def save_new_pose_def store_linkage_attributes_def Let_def
      frame_yrotate_xtranslate_def frame_zrotate_xytranslate_def radians_def get_point_wrt_def
      Point_init_def coords_def row_times_def)

text \<open>
  C1 with the values \<open>p2 = (100, 80, 0)\<close> and \<open>p3 = (100, 80, -120)\<close> does not hold:
  the \<open>p2\<close> of that linkage is off by 80 in both \<open>x\<close> and \<open>y\<close>, far beyond
  \<open>1e-6\<close>.
\<close>

theorem neutral_pose_points_counterexample:
  "\<not> isl (Linkage_init 100 80 120 0 0 0 0 (Point_init 0 0 0 None) None) \<and>
   \<bar>pt_x (p2 (projr (Linkage_init 100 80 120 0 0 0 0 (Point_init 0 0 0 None) None))) - 100\<bar>
     > 1 / 10 ^ 6 \<and>
   \<bar>pt_y (p2 (projr (Linkage_init 100 80 120 0 0 0 0 (Point_init 0 0 0 None) None))) - 80\<bar>
     > 1 / 10 ^ 6 \<and>
   coords (p2 (projr (Linkage_init 100 80 120 0 0 0 0 (Point_init 0 0 0 None) None)))
     \<noteq> (100, 80, 0) \<and>
   coords (p3 (projr (Linkage_init 100 80 120 0 0 0 0 (Point_init 0 0 0 None) None)))
     \<noteq> (100, 80, - 120)"
  by (simp add: Linkage_init_def save_new_pose_def store_linkage_attributes_def Let_def
      frame_yrotate_xtranslate_def frame_zrotate_xytranslate_def radians_def get_point_wrt_def
      Point_init_def coords_def row_times_def)

text \<open>
  C3. \<open>change_pose\<close> treats an omitted angle (\<open>None\<close>) and a supplied angle of 0 alike:
  in both cases the previous value of that angle is kept. Any other supplied value replaces
  the previous one. The result is \<open>save_new_pose\<close> run on the three resulting angles, and
  its derived points are recomputed from them: \<open>p0\<close> is the mount origin, and \<open>p1\<close>,
  \<open>p2\<close>, \<open>p3\<close> are the coxia, femur and tibia tips that the resulting yaw
  (heading plus alpha), pitch (minus beta) and knee angle (90 minus gamma) place, whatever
  the points were before the call.
\<close>

theorem change_pose_zero_is_omitted:
  "change_pose (Some 0) be ga l = change_pose None be ga l \<and>
   change_pose al (Some 0) ga l = change_pose al None ga l \<and>
   change_pose al be (Some 0) l = change_pose al be None l \<and>
   l_alpha (change_pose None be ga l) = l_alpha l \<and>
   l_beta (change_pose al None ga l) = l_beta l \<and>
   l_gamma (change_pose al be None l) = l_gamma l \<and>
   (v \<noteq> 0 \<longrightarrow>
      l_alpha (change_pose (Some v) be ga l) = v \<and>
      l_beta (change_pose al (Some v) ga l) = v \<and>
      l_gamma (change_pose al be (Some v) l) = v) \<and>
   change_pose al be ga l =
     save_new_pose (l_alpha (change_pose al be ga l)) (l_beta (change_pose al be ga l))
       (l_gamma (change_pose al be ga l)) l \<and>
   (let yaw = radians (l_new_x_axis l + l_alpha (change_pose al be ga l));
        pitch = radians (- l_beta (change_pose al be ga l));
        knee = radians (90 - l_gamma (change_pose al be ga l));
        x1 = l_a l;
        x2 = cos pitch * l_b l + l_a l;
        z2 = - sin pitch * l_b l;
        x3 = (cos pitch * cos knee - sin pitch * sin knee) * l_c l + cos pitch * l_b l + l_a l;
        z3 = (- sin pitch * cos knee - cos pitch * sin knee) * l_c l - sin pitch * l_b l
    in p0 (change_pose al be ga l) = l_new_origin l \<and>
       p1 (change_pose al be ga l) =
         \<lparr>pt_x = cos yaw * x1 + pt_x (l_new_origin l),
          pt_y = sin yaw * x1 + pt_y (l_new_origin l),
          pt_z = 0, pt_name = Some ''coxia''\<rparr> \<and>
       p2 (change_pose al be ga l) =
         \<lparr>pt_x = cos yaw * x2 + pt_x (l_new_origin l),
          pt_y = sin yaw * x2 + pt_y (l_new_origin l),
          pt_z = z2, pt_name = Some ''femur''\<rparr> \<and>
       p3 (change_pose al be ga l) =
         \<lparr>pt_x = cos yaw * x3 + pt_x (l_new_origin l),
          pt_y = sin yaw * x3 + pt_y (l_new_origin l),
          pt_z = z3, pt_name = Some ''tibia''\<rparr>)"
proof -
  let ?A = "py_or al (l_alpha l)" and ?B = "py_or be (l_beta l)" and ?G = "py_or ga (l_gamma l)"
  have cp: "change_pose al be ga l = save_new_pose ?A ?B ?G l"
    by (simp add: change_pose_def Let_def)
  have angles: "l_alpha (change_pose al be ga l) = ?A" "l_beta (change_pose al be ga l) = ?B"
    "l_gamma (change_pose al be ga l) = ?G"
    by (simp_all add: cp save_new_pose_angles)
  have first: "change_pose (Some 0) be ga l = change_pose None be ga l \<and>
   change_pose al (Some 0) ga l = change_pose al None ga l \<and>
   change_pose al be (Some 0) l = change_pose al be None l \<and>
   l_alpha (change_pose None be ga l) = l_alpha l \<and>
   l_beta (change_pose al None ga l) = l_beta l \<and>
   l_gamma (change_pose al be None l) = l_gamma l \<and>
   (v \<noteq> 0 \<longrightarrow>
      l_alpha (change_pose (Some v) be ga l) = v \<and>
      l_beta (change_pose al (Some v) ga l) = v \<and>
      l_gamma (change_pose al be (Some v) l) = v) \<and>
   change_pose al be ga l =
     save_new_pose (l_alpha (change_pose al be ga l)) (l_beta (change_pose al be ga l))
       (l_gamma (change_pose al be ga l)) l"
    by (simp add: change_pose_def py_or_def Let_def save_new_pose_angles)
  have pts: "p0 (change_pose al be ga l) = p0 (save_new_pose ?A ?B ?G l)"
    "p1 (change_pose al be ga l) = p1 (save_new_pose ?A ?B ?G l)"
    "p2 (change_pose al be ga l) = p2 (save_new_pose ?A ?B ?G l)"
    "p3 (change_pose al be ga l) = p3 (save_new_pose ?A ?B ?G l)"
    by (simp_all only: cp)
  have second: "(let yaw = radians (l_new_x_axis l + l_alpha (change_pose al be ga l));
        pitch = radians (- l_beta (change_pose al be ga l));
        knee = radians (90 - l_gamma (change_pose al be ga l));
        x1 = l_a l;
        x2 = cos pitch * l_b l + l_a l;
        z2 = - sin pitch * l_b l;
        x3 = (cos pitch * cos knee - sin pitch * sin knee) * l_c l + cos pitch * l_b l + l_a l;
        z3 = (- sin pitch * cos knee - cos pitch * sin knee) * l_c l - sin pitch * l_b l
    in p0 (change_pose al be ga l) = l_new_origin l \<and>
       p1 (change_pose al be ga l) =
         \<lparr>pt_x = cos yaw * x1 + pt_x (l_new_origin l),
          pt_y = sin yaw * x1 + pt_y (l_new_origin l),
          pt_z = 0, pt_name = Some ''coxia''\<rparr> \<and>
       p2 (change_pose al be ga l) =
         \<lparr>pt_x = cos yaw * x2 + pt_x (l_new_origin l),
          pt_y = sin yaw * x2 + pt_y (l_new_origin l),
          pt_z = z2, pt_name = Some ''femur''\<rparr> \<and>
       p3 (change_pose al be ga l) =
         \<lparr>pt_x = cos yaw * x3 + pt_x (l_new_origin l),
          pt_y = sin yaw * x3 + pt_y (l_new_origin l),
          pt_z = z3, pt_name = Some ''tibia''\<rparr>)"
    unfolding Let_def angles pts
    by (rule save_new_pose_points)
  from first second show ?thesis
    by (elim conjE, intro conjI)
qed

theorem change_pose_zero_is_omitted_witness:
  "(90::real) \<noteq> 0 \<and>
   l_alpha (change_pose (Some 90) None None
     (projr (Linkage_init 100 80 120 0 0 0 0 (Point_init 0 0 0 None) None))) = 90 \<and>
   coords (p1 (change_pose (Some 90) None None
     (projr (Linkage_init 100 80 120 0 0 0 0 (Point_init 0 0 0 None) None)))) = (0, 100, 0) \<and>
   coords (p2 (change_pose (Some 90) None None
     (projr (Linkage_init 100 80 120 0 0 0 0 (Point_init 0 0 0 None) None)))) = (0, 180, 0) \<and>
   coords (p3 (change_pose (Some 90) None None
     (projr (Linkage_init 100 80 120 0 0 0 0 (Point_init 0 0 0 None) None)))) = (0, 180, - 120) \<and>
   l_alpha (change_pose (Some 0) None None (change_pose (Some 90) None None
     (projr (Linkage_init 100 80 120 0 0 0 0 (Point_init 0 0 0 None) None)))) = 90 \<and>
   coords (p3 (change_pose (Some 0) None None (change_pose (Some 90) None None
     (projr (Linkage_init 100 80 120 0 0 0 0 (Point_init 0 0 0 None) None))))) = (0, 180, - 120)"
proof -
  let ?L = "projr (Linkage_init 100 80 120 0 0 0 0 (Point_init 0 0 0 None) None)"
  let ?M = "change_pose (Some 90) None None ?L"
  have L: "l_a ?L = 100" "l_b ?L = 80" "l_c ?L = 120" "l_new_x_axis ?L = 0"
    "pt_x (l_new_origin ?L) = 0" "pt_y (l_new_origin ?L) = 0"
    "l_alpha ?L = 0" "l_beta ?L = 0" "l_gamma ?L = 0"
    by (simp_all add: Linkage_init_Inr save_new_pose_frame save_new_pose_angles Point_init_def)
  have M: "l_a ?M = 100" "l_b ?M = 80" "l_c ?M = 120" "l_new_x_axis ?M = 0"
    "pt_x (l_new_origin ?M) = 0" "pt_y (l_new_origin ?M) = 0"
    by (simp_all add: change_pose_def Let_def save_new_pose_frame L)
  note one = change_pose_zero_is_omitted [where al = "Some 90" and be = None and ga = None and v = 90 and l = ?L]
  note two = change_pose_zero_is_omitted [where al = "Some 0" and be = None and ga = None and v = 90 and l = ?M]
  from one have a1: "l_alpha ?M = 90"
    by simp
  from one have "l_beta ?M = l_beta ?L" "l_gamma ?M = l_gamma ?L"
    by blast+
  then have b1: "l_beta ?M = 0" "l_gamma ?M = 0"
    by (simp_all only: L)
  from one have pts1:
    "p1 ?M = \<lparr>pt_x = cos (radians (l_new_x_axis ?L + l_alpha ?M)) * l_a ?L
                      + pt_x (l_new_origin ?L),
              pt_y = sin (radians (l_new_x_axis ?L + l_alpha ?M)) * l_a ?L
                      + pt_y (l_new_origin ?L),
              pt_z = 0, pt_name = Some ''coxia''\<rparr>"
    "p2 ?M = \<lparr>pt_x = cos (radians (l_new_x_axis ?L + l_alpha ?M))
                      * (cos (radians (- l_beta ?M)) * l_b ?L + l_a ?L)
                      + pt_x (l_new_origin ?L),
              pt_y = sin (radians (l_new_x_axis ?L + l_alpha ?M))
                      * (cos (radians (- l_beta ?M)) * l_b ?L + l_a ?L)
                      + pt_y (l_new_origin ?L),
              pt_z = - sin (radians (- l_beta ?M)) * l_b ?L, pt_name = Some ''femur''\<rparr>"
    "p3 ?M = \<lparr>pt_x = cos (radians (l_new_x_axis ?L + l_alpha ?M))
                      * ((cos (radians (- l_beta ?M)) * cos (radians (90 - l_gamma ?M))
                           - sin (radians (- l_beta ?M)) * sin (radians (90 - l_gamma ?M)))
                          * l_c ?L
                         + cos (radians (- l_beta ?M)) * l_b ?L + l_a ?L)
                      + pt_x (l_new_origin ?L),
              pt_y = sin (radians (l_new_x_axis ?L + l_alpha ?M))
                      * ((cos (radians (- l_beta ?M)) * cos (radians (90 - l_gamma ?M))
                           - sin (radians (- l_beta ?M)) * sin (radians (90 - l_gamma ?M)))
                          * l_c ?L
                         + cos (radians (- l_beta ?M)) * l_b ?L + l_a ?L)
                      + pt_y (l_new_origin ?L),
              pt_z = (- sin (radians (- l_beta ?M)) * cos (radians (90 - l_gamma ?M))
                        - cos (radians (- l_beta ?M)) * sin (radians (90 - l_gamma ?M)))
                       * l_c ?L
                     - sin (radians (- l_beta ?M)) * l_b ?L,
              pt_name = Some ''tibia''\<rparr>"
    unfolding Let_def by blast+
  have c1: "coords (p1 ?M) = (0, 100, 0)" "coords (p2 ?M) = (0, 180, 0)"
    "coords (p3 ?M) = (0, 180, - 120)"
    unfolding pts1 a1 b1 L by (simp_all add: coords_def radians_def)
  let ?N = "change_pose (Some 0) None None ?M"
  from two have same: "?N = change_pose None None None ?M"
    by blast
  from two have kept: "l_alpha (change_pose None None None ?M) = l_alpha ?M"
    "l_beta ?N = l_beta ?M" "l_gamma ?N = l_gamma ?M"
    by blast+
  have a2: "l_alpha ?N = 90" "l_beta ?N = 0" "l_gamma ?N = 0"
    using kept a1 b1 by (simp_all only: same)
  from two have pts2:
    "p3 ?N = \<lparr>pt_x = cos (radians (l_new_x_axis ?M + l_alpha ?N))
                      * ((cos (radians (- l_beta ?N)) * cos (radians (90 - l_gamma ?N))
                           - sin (radians (- l_beta ?N)) * sin (radians (90 - l_gamma ?N)))
                          * l_c ?M
                         + cos (radians (- l_beta ?N)) * l_b ?M + l_a ?M)
                      + pt_x (l_new_origin ?M),
              pt_y = sin (radians (l_new_x_axis ?M + l_alpha ?N))
                      * ((cos (radians (- l_beta ?N)) * cos (radians (90 - l_gamma ?N))
                           - sin (radians (- l_beta ?N)) * sin (radians (90 - l_gamma ?N)))
                          * l_c ?M
                         + cos (radians (- l_beta ?N)) * l_b ?M + l_a ?M)
                      + pt_y (l_new_origin ?M),
              pt_z = (- sin (radians (- l_beta ?N)) * cos (radians (90 - l_gamma ?N))
                        - cos (radians (- l_beta ?N)) * sin (radians (90 - l_gamma ?N)))
                       * l_c ?M
                     - sin (radians (- l_beta ?N)) * l_b ?M,
              pt_name = Some ''tibia''\<rparr>"
    unfolding Let_def by blast
  have c2: "coords (p3 ?N) = (0, 180, - 120)"
    unfolding pts2 a2 M by (simp add: coords_def radians_def)
  from a1 c1 a2(1) c2 show ?thesis
    by simp
qed

text \<open>
  C10. \<open>change_pose\<close> leaves the segment lengths, the mount heading, the mount origin
  (and the name) as they were, and afterwards \<open>p0\<close> is the mount origin. The linkage it
  returns is the old one with nothing but the three angles and the points \<open>p0\<close> to
  \<open>p3\<close> assigned.
\<close>

theorem change_pose_frame:
  "l_a (change_pose al be ga l) = l_a l \<and>
   l_b (change_pose al be ga l) = l_b l \<and>
   l_c (change_pose al be ga l) = l_c l \<and>
   l_new_x_axis (change_pose al be ga l) = l_new_x_axis l \<and>
   l_new_origin (change_pose al be ga l) = l_new_origin l \<and>
   l_name (change_pose al be ga l) = l_name l \<and>
   p0 (change_pose al be ga l) = l_new_origin l \<and>
   change_pose al be ga l =
      l\<lparr>l_alpha := l_alpha (change_pose al be ga l),
        l_beta := l_beta (change_pose al be ga l),
        l_gamma := l_gamma (change_pose al be ga l),
        p0 := p0 (change_pose al be ga l), p1 := p1 (change_pose al be ga l),
        p2 := p2 (change_pose al be ga l), p3 := p3 (change_pose al be ga l)\<rparr>"
  unfolding change_pose_def Let_def
  using save_new_pose_overwrites
    [of "py_or al (l_alpha l)" "py_or be (l_beta l)" "py_or ga (l_gamma l)" l]
  by (simp add: save_new_pose_frame save_new_pose_p0 save_new_pose_angles)

section \<open>Construction\<close>

lemma neutral_legs_loop_eq:
  "neutral_legs_loop a b c vs acc =
     Inr (acc @ map (\<lambda>(point, theta, name).
                      projr (Linkage_init a b c 0 0 0 theta point (Some name))) vs)"
  by (induction vs arbitrary: acc) (auto simp add: Linkage_init_Inr)

lemma VirtualHexapod_init_legs:
  "\<not> isl (VirtualHexapod_init a b c f m s) \<and>
   legs (projr (VirtualHexapod_init a b c f m s)) =
     map (\<lambda>(point, theta, name). projr (Linkage_init a b c 0 0 0 theta point (Some name)))
       (zip (vertices (Hexagon_init f m s)) (zip NEW_X_AXES VERTEX_NAMES))"
  by (simp add: VirtualHexapod_init_def store_neutral_legs_def neutral_legs_loop_eq)

text \<open>The constructor always builds six legs.\<close>

lemma VirtualHexapod_init_six_legs:
  "length (legs (projr (VirtualHexapod_init a b c f m s))) = 6"
  by (simp add: VirtualHexapod_init_legs Hexagon_init_def NEW_X_AXES_def VERTEX_NAMES_def)

text \<open>
  C2, as the program behaves. Neither constructor validates a dimension: for all real
  \<open>a\<close>, \<open>b\<close>, \<open>c\<close>, \<open>f\<close>, \<open>m\<close>, \<open>s\<close>, negative ones included, construction of
  a Linkage and of a VirtualHexapod succeeds and stores the dimensions as given.
\<close>

theorem construction_accepts_every_dimension:
  "(\<exists>l. Linkage_init a b c al be ga nx no nm = Inr l \<and>
        l_a l = a \<and> l_b l = b \<and> l_c l = c) \<and>
   (\<exists>h. VirtualHexapod_init a b c f m s = Inr h \<and>
        linkage_measurements h = [a, b, c] \<and> body_measurements h = [f, m, s] \<and>
        hex_f (body h) = f \<and> hex_m (body h) = m \<and> hex_s (body h) = s \<and>
        map l_a (legs h) = [a, a, a, a, a, a] \<and>
        map l_b (legs h) = [b, b, b, b, b, b] \<and>
        map l_c (legs h) = [c, c, c, c, c, c])"
  by (simp add: VirtualHexapod_init_def store_neutral_legs_def neutral_legs_loop_eq
      Hexagon_init_def NEW_X_AXES_def VERTEX_NAMES_def Linkage_init_Inr save_new_pose_frame)

text \<open>
  C2 with a raised \<open>InvalidMeasurement\<close> does not hold: with \<open>a = -1\<close> the Linkage
  constructor returns a linkage whose \<open>_a\<close> is \<open>-1\<close>, and with \<open>m = -2\<close> the
  VirtualHexapod constructor returns a hexapod.
\<close>

theorem construction_raises_counterexample:
  "\<not> isl (Linkage_init (- 1) 80 120 0 0 0 0 (Point_init 0 0 0 None) None) \<and>
   l_a (projr (Linkage_init (- 1) 80 120 0 0 0 0 (Point_init 0 0 0 None) None)) = - 1 \<and>
   Linkage_init (- 1) 80 120 0 0 0 0 (Point_init 0 0 0 None) None \<noteq> Inl InvalidMeasurement \<and>
   \<not> isl (VirtualHexapod_init 100 80 120 1 (- 2) 3) \<and>
   body_measurements (projr (VirtualHexapod_init 100 80 120 1 (- 2) 3)) = [1, - 2, 3] \<and>
   VirtualHexapod_init 100 80 120 1 (- 2) 3 \<noteq> Inl InvalidMeasurement"
  by (simp add: VirtualHexapod_init_def store_neutral_legs_def neutral_legs_loop_eq
      Linkage_init_Inr save_new_pose_frame)

section \<open>Floor heights of the example states\<close>

lemma floor_height_neutral: "floor_height (save_new_pose al 0 0 l) = l_c l"
  by (simp add: floor_height_def save_new_pose_def Let_def frame_yrotate_xtranslate_def
      frame_zrotate_xytranslate_def radians_def get_point_wrt_def Point_init_def row_times_def)

lemma floor_height_tibia_up: "floor_height (save_new_pose al 0 180 l) = - l_c l"
  by (simp add: floor_height_def save_new_pose_def Let_def frame_yrotate_xtranslate_def
      frame_zrotate_xytranslate_def radians_def get_point_wrt_def Point_init_def row_times_def)

lemma neutral_leg_floor_height:
  "floor_height (projr (Linkage_init a b c al 0 0 nx no nm)) = c"
  by (simp add: Linkage_init_Inr floor_height_neutral save_new_pose_frame)

lemma reposed_leg_floor_height:
  "floor_height (change_pose None None (Some 180) (projr (Linkage_init a b c al 0 0 nx no nm)))
     = - c"
  by (simp add: Linkage_init_Inr change_pose_def py_or_def save_new_pose_angles
      floor_height_tibia_up save_new_pose_frame)

lemma example_hexapod_legs:
  "\<exists>l0 l1 l2 l3 l4 l5. legs example_hexapod = [l0, l1, l2, l3, l4, l5] \<and>
     floor_height l0 = - 120 \<and> floor_height l1 = - 120 \<and> floor_height l2 = - 120 \<and>
     floor_height l3 = 120 \<and> floor_height l4 = 120 \<and> floor_height l5 = 120"
  by (simp add: example_hexapod_def Let_def VirtualHexapod_init_legs Hexagon_init_def
      NEW_X_AXES_def VERTEX_NAMES_def neutral_leg_floor_height reposed_leg_floor_height)

lemma airborne_hexapod_legs:
  "length (legs (projr (VirtualHexapod_init 0 0 0 0 0 0))) = 6 \<and>
   (\<forall>leg\<in>set (legs (projr (VirtualHexapod_init 0 0 0 0 0 0))). floor_height leg = 0)"
  by (simp add: VirtualHexapod_init_legs Hexagon_init_def
      NEW_X_AXES_def VERTEX_NAMES_def neutral_leg_floor_height)

section \<open>The sort of \<open>find_feet_on_ground\<close>\<close>

lemma three_nonempty: "3 \<le> length xs \<Longrightarrow> xs \<noteq> []"
  by (cases xs) simp_all

lemma three_first_mem: "3 \<le> length xs \<Longrightarrow> xs ! 0 \<in> set xs"
  by (cases xs) simp_all

lemma feet_loop_takeWhile:
  "feet_loop t xs acc = acc @ takeWhile (\<lambda>l. floor_height l \<ge> t) xs"
  by (induction xs arbitrary: acc) simp_all

lemma mset_sorted_reverse: "mset (sorted_reverse key xs) = mset xs"
  by (simp add: sorted_reverse_def)

lemma length_sorted_reverse: "length (sorted_reverse key xs) = length xs"
  by (simp add: sorted_reverse_def)

lemma set_sorted_reverse: "set (sorted_reverse key xs) = set xs"
  by (simp add: sorted_reverse_def)

lemma sorted_reverse_descending:
  "sorted_wrt (\<lambda>u v. key u \<ge> key v) (sorted_reverse key xs)"
proof -
  have "sorted (map key (sort_key key (rev xs)))"
    by simp
  then have "sorted_wrt (\<lambda>u v. key u \<le> key v) (sort_key key (rev xs))"
    by (simp only: sorted_map)
  then show ?thesis
    by (simp add: sorted_reverse_def sorted_wrt_rev)
qed

lemma sorted_reverse_stable:
  "filter (\<lambda>u. key u = k) (sorted_reverse key xs) = filter (\<lambda>u. key u = k) xs"
proof -
  have "filter (\<lambda>u. key u = k) (sorted_reverse key xs)
        = rev (filter (\<lambda>u. key u = k) (sort_key key (rev xs)))"
    by (simp add: sorted_reverse_def rev_filter)
  also have "\<dots> = rev (filter (\<lambda>u. key u = k) (rev xs))"
    by (simp only: sort_key_stable)
  also have "\<dots> = filter (\<lambda>u. key u = k) xs"
    by (simp add: rev_filter)
  finally show ?thesis .
qed

lemma sorted_reverse_is_stable_sorted_desc:
  "stable_sorted_desc key xs (sorted_reverse key xs)"
  unfolding stable_sorted_desc_def
  using mset_sorted_reverse sorted_reverse_descending sorted_reverse_stable by blast

lemma stable_sorted_desc_unique:
  assumes "stable_sorted_desc key xs ys"
  shows "ys = sorted_reverse key xs"
proof -
  from assms have m: "mset ys = mset xs"
    and d: "sorted_wrt (\<lambda>u v. key u \<ge> key v) ys"
    and st: "\<And>k. filter (\<lambda>u. key u = k) ys = filter (\<lambda>u. key u = k) xs"
    by (simp_all add: stable_sorted_desc_def)
  have "sort_key key (rev xs) = rev ys"
  proof (rule properties_for_sort_key)
    show "mset (rev ys) = mset (rev xs)"
      using m by simp
  next
    fix k
    have "filter (\<lambda>u. key u = key k) (rev ys) = filter (\<lambda>u. key u = key k) (rev xs)"
      using st [of "key k"] by (simp add: rev_filter [symmetric])
    then show "filter (\<lambda>x. key k = key x) (rev ys) = filter (\<lambda>x. key k = key x) (rev xs)"
      by (simp add: eq_commute)
  next
    have "sorted_wrt (\<lambda>u v. key u \<le> key v) (rev ys)"
      using d by (simp add: sorted_wrt_rev)
    then show "sorted (map key (rev ys))"
      by (simp only: sorted_map)
  qed
  then show ?thesis
    by (simp add: sorted_reverse_def)
qed

lemma descending_hd_greatest:
  assumes "sorted_wrt (\<lambda>u v. key u \<ge> (key v :: real)) ys" and "l \<in> set ys"
  shows "key l \<le> key (ys ! 0)"
  using assms by (cases ys) auto

lemma descending_first_three:
  assumes d: "sorted_wrt (\<lambda>u v. key u \<ge> (key v :: real)) ys" and len: "3 \<le> length ys"
  shows "3 \<le> length (takeWhile (\<lambda>l. key l \<ge> key (ys ! 2) - 2) ys)"
proof (rule length_takeWhile_less_P_nth)
  fix i :: nat
  assume "i < 3"
  then have "i = 2 \<or> i < 2" by arith
  then have "key (ys ! 2) \<le> key (ys ! i)"
  proof
    assume "i = 2" then show ?thesis by simp
  next
    assume "i < 2"
    with d len show ?thesis
      by (auto dest: sorted_wrt_nth_less [where i = i and j = 2])
  qed
  then show "key (ys ! 2) - 2 \<le> key (ys ! i)" by simp
next
  show "3 \<le> length ys" by (rule len)
qed

lemma find_feet_on_ground_unfold:
  assumes "3 \<le> length (legs h)"
  shows "find_feet_on_ground h =
     (let s = sorted_reverse floor_height (legs h);
          feet = takeWhile (\<lambda>l. floor_height l \<ge> floor_height (s ! 2) - 2) s
      in if floor_height (s ! 0) \<le> 0 then Inr (None, None)
         else Inr (Some feet, if feet = [] then None else Some (feet ! 0)))"
proof -
  have len: "length (sorted_reverse floor_height (legs h)) = length (legs h)"
    by (rule length_sorted_reverse)
  with assms have "3 \<le> length (sorted_reverse floor_height (legs h))"
    by simp
  then have "sorted_reverse floor_height (legs h) \<noteq> []"
    by (rule three_nonempty)
  with assms len show ?thesis
    by (simp add: find_feet_on_ground_def index_def Let_def feet_loop_takeWhile)
qed

text \<open>
  What \<open>find_feet_on_ground\<close> returns when there are at least three legs: no index is
  out of range, the first three sorted legs pass the threshold test, and the pivot is
  the first sorted leg.
\<close>

lemma find_feet_on_ground_cases:
  assumes len: "3 \<le> length (legs h)"
  shows "(floor_height (sorted_reverse floor_height (legs h) ! 0) \<le> 0 \<longrightarrow>
            find_feet_on_ground h = Inr (None, None)) \<and>
         (\<not> floor_height (sorted_reverse floor_height (legs h) ! 0) \<le> 0 \<longrightarrow>
            find_feet_on_ground h =
              Inr (Some (takeWhile (\<lambda>l. floor_height l \<ge>
                           floor_height (sorted_reverse floor_height (legs h) ! 2) - 2)
                         (sorted_reverse floor_height (legs h))),
                   Some (sorted_reverse floor_height (legs h) ! 0)) \<and>
            3 \<le> length (takeWhile (\<lambda>l. floor_height l \<ge>
                           floor_height (sorted_reverse floor_height (legs h) ! 2) - 2)
                         (sorted_reverse floor_height (legs h))) \<and>
            takeWhile (\<lambda>l. floor_height l \<ge>
                           floor_height (sorted_reverse floor_height (legs h) ! 2) - 2)
                         (sorted_reverse floor_height (legs h)) ! 0
              = sorted_reverse floor_height (legs h) ! 0)"
proof -
  let ?s = "sorted_reverse floor_height (legs h)"
  let ?feet = "takeWhile (\<lambda>l. floor_height l \<ge> floor_height (?s ! 2) - 2) ?s"
  have "3 \<le> length ?s"
    using len by (simp add: length_sorted_reverse)
  with sorted_reverse_descending have three: "3 \<le> length ?feet"
    by (rule descending_first_three)
  then have ne: "?feet \<noteq> []"
    by (rule three_nonempty)
  from three have "0 < length ?feet"
    by arith
  then have first: "?feet ! 0 = ?s ! 0"
    by (rule takeWhile_nth)
  have "find_feet_on_ground h =
     (if floor_height (?s ! 0) \<le> 0 then Inr (None, None)
      else Inr (Some ?feet, if ?feet = [] then None else Some (?feet ! 0)))"
    using find_feet_on_ground_unfold [OF len] by (simp only: Let_def)
  also have "\<dots> = (if floor_height (?s ! 0) \<le> 0 then Inr (None, None)
      else Inr (Some ?feet, Some (?s ! 0)))"
    by (simp only: ne first if_False)
  finally show ?thesis
    using three first by simp
qed

lemma first_nonpositive_iff:
  assumes len: "3 \<le> length (legs h)"
  shows "(floor_height (sorted_reverse floor_height (legs h) ! 0) \<le> 0) =
         (\<forall>leg\<in>set (legs h). floor_height leg \<le> 0)"
proof
  assume top: "floor_height (sorted_reverse floor_height (legs h) ! 0) \<le> 0"
  show "\<forall>leg\<in>set (legs h). floor_height leg \<le> 0"
  proof
    fix leg assume "leg \<in> set (legs h)"
    then have "leg \<in> set (sorted_reverse floor_height (legs h))"
      by (simp add: set_sorted_reverse)
    then have "floor_height leg \<le> floor_height (sorted_reverse floor_height (legs h) ! 0)"
      by (rule descending_hd_greatest [OF sorted_reverse_descending])
    with top show "floor_height leg \<le> 0" by simp
  qed
next
  assume all: "\<forall>leg\<in>set (legs h). floor_height leg \<le> 0"
  have "3 \<le> length (sorted_reverse floor_height (legs h))"
    using len by (simp add: length_sorted_reverse)
  then have "sorted_reverse floor_height (legs h) ! 0 \<in> set (sorted_reverse floor_height (legs h))"
    by (rule three_first_mem)
  then have "sorted_reverse floor_height (legs h) ! 0 \<in> set (legs h)"
    by (simp add: set_sorted_reverse)
  with all show "floor_height (sorted_reverse floor_height (legs h) ! 0) \<le> 0"
    by blast
qed

section \<open>Ground contact\<close>

text \<open>
  A VirtualHexapod holds six legs (\<open>VirtualHexapod_init_six_legs\<close>), and re-posing a leg
  replaces one element of the list; the statements below are about such states.
\<close>

text \<open>
  C4. For a hexapod whose \<open>find_feet_on_ground\<close> does not return \<open>(None, None)\<close>, and
  \<open>sortedLegs\<close> its legs stable-sorted by floor height, largest first (ties in the order
  of the leg indices): the returned feet are the longest prefix of \<open>sortedLegs\<close> whose
  floor heights are all at least \<open>sortedLegs[2].floor_height() - 2\<close>, and the returned
  pivot is the first of the feet.
\<close>

theorem find_feet_on_ground_maximal_prefix:
  assumes "length (legs h) = 6"
    and "stable_sorted_desc floor_height (legs h) sortedLegs"
    and "find_feet_on_ground h \<noteq> Inr (None, None)"
  shows "\<exists>feet. find_feet_on_ground h = Inr (Some feet, Some (feet ! 0)) \<and>
           feet \<noteq> [] \<and>
           feet = takeWhile (\<lambda>leg. floor_height leg \<ge> floor_height (sortedLegs ! 2) - 2)
                    sortedLegs \<and>
           feet = take (length feet) sortedLegs \<and>
           (\<forall>leg\<in>set feet. floor_height leg \<ge> floor_height (sortedLegs ! 2) - 2) \<and>
           (length feet < length sortedLegs \<longrightarrow>
              floor_height (sortedLegs ! length feet) < floor_height (sortedLegs ! 2) - 2)"
proof -
  let ?P = "\<lambda>leg. floor_height leg \<ge> floor_height (sortedLegs ! 2) - 2"
  let ?feet = "takeWhile ?P sortedLegs"
  from assms(1) have len: "3 \<le> length (legs h)" by simp
  have s: "sortedLegs = sorted_reverse floor_height (legs h)"
    using assms(2) by (rule stable_sorted_desc_unique)
  from find_feet_on_ground_cases [OF len] assms(3)
  have res: "find_feet_on_ground h = Inr (Some ?feet, Some (sortedLegs ! 0))"
    and three: "3 \<le> length ?feet" and first: "?feet ! 0 = sortedLegs ! 0"
    unfolding s by auto
  from three have ne: "?feet \<noteq> []" by (rule three_nonempty)
  have pre: "?feet = take (length ?feet) sortedLegs"
    by (rule takeWhile_eq_take)
  have allP: "\<forall>leg\<in>set ?feet. ?P leg"
    by (auto dest: set_takeWhileD)
  have stop: "length ?feet < length sortedLegs \<longrightarrow>
      floor_height (sortedLegs ! length ?feet) < floor_height (sortedLegs ! 2) - 2"
    using nth_length_takeWhile [of ?P sortedLegs] by auto
  from res first ne pre allP stop show ?thesis
    by (intro exI [of _ ?feet]) simp
qed

theorem find_feet_on_ground_maximal_prefix_witness:
  "length (legs example_hexapod) = 6 \<and>
   stable_sorted_desc floor_height (legs example_hexapod)
     (drop 3 (legs example_hexapod) @ take 3 (legs example_hexapod)) \<and>
   find_feet_on_ground example_hexapod \<noteq> Inr (None, None) \<and>
   find_feet_on_ground example_hexapod =
     Inr (Some (drop 3 (legs example_hexapod)), Some (legs example_hexapod ! 3))"
proof -
  from example_hexapod_legs obtain l0 l1 l2 l3 l4 l5 where
    ls: "legs example_hexapod = [l0, l1, l2, l3, l4, l5]" and
    fh: "floor_height l0 = - 120" "floor_height l1 = - 120" "floor_height l2 = - 120"
        "floor_height l3 = 120" "floor_height l4 = 120" "floor_height l5 = 120"
    by blast
  have len: "length (legs example_hexapod) = 6"
    by (simp add: ls)
  have st: "stable_sorted_desc floor_height (legs example_hexapod) [l3, l4, l5, l0, l1, l2]"
    by (auto simp add: stable_sorted_desc_def ls fh)
  have top: "\<not> floor_height (sorted_reverse floor_height (legs example_hexapod) ! 0) \<le> 0"
    by (simp add: stable_sorted_desc_unique [OF st, symmetric] fh)
  have nn: "find_feet_on_ground example_hexapod \<noteq> Inr (None, None)"
    using find_feet_on_ground_cases [of example_hexapod] top len by simp
  from find_feet_on_ground_maximal_prefix [OF len st nn] have
    "find_feet_on_ground example_hexapod = Inr (Some [l3, l4, l5], Some l3)"
    by (auto simp add: fh)
  with len st nn show ?thesis
    by (simp add: ls)
qed

text \<open>
  C5. For a hexapod (six legs), \<open>find_feet_on_ground\<close> returns \<open>(None, None)\<close> if and
  only if every leg's floor height is at most 0, which is the same as the largest of the
  six floor heights being at most 0.
\<close>

theorem find_feet_on_ground_none_iff:
  assumes "length (legs h) = 6"
  shows "(find_feet_on_ground h = Inr (None, None)) =
           (\<forall>leg\<in>set (legs h). floor_height leg \<le> 0) \<and>
         (\<forall>leg\<in>set (legs h). floor_height leg \<le> 0) =
           (Max (floor_height ` set (legs h)) \<le> 0)"
proof
  from assms have len: "3 \<le> length (legs h)" by simp
  show "(find_feet_on_ground h = Inr (None, None)) =
           (\<forall>leg\<in>set (legs h). floor_height leg \<le> 0)"
    using find_feet_on_ground_cases [OF len] first_nonpositive_iff [OF len]
    by auto
next
  from assms have "3 \<le> length (legs h)" by simp
  then have "legs h \<noteq> []" by (rule three_nonempty)
  then show "(\<forall>leg\<in>set (legs h). floor_height leg \<le> 0) =
           (Max (floor_height ` set (legs h)) \<le> 0)"
    by (simp add: Max_le_iff)
qed

theorem find_feet_on_ground_none_iff_witness:
  "length (legs example_hexapod) = 6 \<and>
   \<not> (\<forall>leg\<in>set (legs example_hexapod). floor_height leg \<le> 0) \<and>
   find_feet_on_ground example_hexapod \<noteq> Inr (None, None) \<and>
   length (legs (projr (VirtualHexapod_init 0 0 0 0 0 0))) = 6 \<and>
   map floor_height (legs (projr (VirtualHexapod_init 0 0 0 0 0 0))) = [0, 0, 0, 0, 0, 0] \<and>
   Max (floor_height ` set (legs (projr (VirtualHexapod_init 0 0 0 0 0 0)))) \<le> 0 \<and>
   find_feet_on_ground (projr (VirtualHexapod_init 0 0 0 0 0 0)) = Inr (None, None)"
proof -
  from example_hexapod_legs obtain l0 l1 l2 l3 l4 l5 where
    ls: "legs example_hexapod = [l0, l1, l2, l3, l4, l5]" and
    fh: "floor_height l0 = - 120" "floor_height l1 = - 120" "floor_height l2 = - 120"
        "floor_height l3 = 120" "floor_height l4 = 120" "floor_height l5 = 120"
    by blast
  have len: "length (legs example_hexapod) = 6"
    by (simp add: ls)
  have pos: "\<not> (\<forall>leg\<in>set (legs example_hexapod). floor_height leg \<le> 0)"
    by (simp add: ls fh)
  have len0: "length (legs (projr (VirtualHexapod_init 0 0 0 0 0 0))) = 6"
    using airborne_hexapod_legs by simp
  have air: "\<forall>leg\<in>set (legs (projr (VirtualHexapod_init 0 0 0 0 0 0))). floor_height leg \<le> 0"
    using airborne_hexapod_legs by simp
  have heights: "map floor_height (legs (projr (VirtualHexapod_init 0 0 0 0 0 0)))
      = [0, 0, 0, 0, 0, 0]"
    by (simp add: VirtualHexapod_init_legs Hexagon_init_def NEW_X_AXES_def VERTEX_NAMES_def
        neutral_leg_floor_height)
  from find_feet_on_ground_none_iff [OF len] find_feet_on_ground_none_iff [OF len0]
    len pos len0 air heights
  show ?thesis
    by simp
qed

text \<open>
  C6. For a hexapod whose \<open>find_feet_on_ground\<close> does not return \<open>(None, None)\<close>: the
  result is a list of feet and a pivot, the list has at least three legs (its first three
  are the first three of the descending order), and the pivot is the first of the list, a
  leg of the hexapod whose floor height no other leg exceeds.
\<close>

theorem find_feet_on_ground_three_feet:
  assumes "length (legs h) = 6" and "find_feet_on_ground h \<noteq> Inr (None, None)"
  shows "\<exists>feet pivot. find_feet_on_ground h = Inr (Some feet, Some pivot) \<and>
           3 \<le> length feet \<and>
           take 3 feet = take 3 (sorted_reverse floor_height (legs h)) \<and>
           pivot = feet ! 0 \<and>
           pivot \<in> set (legs h) \<and>
           (\<forall>leg\<in>set (legs h). floor_height leg \<le> floor_height pivot)"
proof -
  let ?s = "sorted_reverse floor_height (legs h)"
  let ?feet = "takeWhile (\<lambda>l. floor_height l \<ge> floor_height (?s ! 2) - 2) ?s"
  from assms have len: "3 \<le> length (legs h)" by simp
  from find_feet_on_ground_cases [OF len] assms(2)
  have res: "find_feet_on_ground h = Inr (Some ?feet, Some (?s ! 0))"
    and three: "3 \<le> length ?feet" and first: "?feet ! 0 = ?s ! 0"
    by auto
  have "?feet = take (length ?feet) ?s"
    by (rule takeWhile_eq_take)
  then have "take 3 ?feet = take 3 (take (length ?feet) ?s)"
    by simp
  with three have t3: "take 3 ?feet = take 3 ?s"
    by (simp add: min_def)
  have "3 \<le> length ?s"
    using len by (simp add: length_sorted_reverse)
  then have "?s ! 0 \<in> set ?s"
    by (rule three_first_mem)
  then have mem: "?s ! 0 \<in> set (legs h)"
    by (simp add: set_sorted_reverse)
  have top: "\<forall>leg\<in>set (legs h). floor_height leg \<le> floor_height (?s ! 0)"
  proof
    fix leg assume "leg \<in> set (legs h)"
    then have "leg \<in> set ?s" by (simp add: set_sorted_reverse)
    then show "floor_height leg \<le> floor_height (?s ! 0)"
      by (rule descending_hd_greatest [OF sorted_reverse_descending])
  qed
  from res three t3 first mem top show ?thesis
    by (intro exI [of _ ?feet] exI [of _ "?s ! 0"]) simp
qed

theorem find_feet_on_ground_three_feet_witness:
  "length (legs example_hexapod) = 6 \<and>
   find_feet_on_ground example_hexapod \<noteq> Inr (None, None) \<and>
   (\<exists>feet pivot. find_feet_on_ground example_hexapod = Inr (Some feet, Some pivot) \<and>
      3 \<le> length feet \<and> pivot = feet ! 0 \<and> floor_height pivot = 120)"
proof -
  from example_hexapod_legs obtain l0 l1 l2 l3 l4 l5 where
    ls: "legs example_hexapod = [l0, l1, l2, l3, l4, l5]" and
    fh: "floor_height l0 = - 120" "floor_height l1 = - 120" "floor_height l2 = - 120"
        "floor_height l3 = 120" "floor_height l4 = 120" "floor_height l5 = 120"
    by blast
  have len: "length (legs example_hexapod) = 6"
    by (simp add: ls)
  have "sorted_reverse floor_height (legs example_hexapod) = [l3, l4, l5, l0, l1, l2]"
    by (simp add: sorted_reverse_def ls fh)
  then have top: "\<not> floor_height (sorted_reverse floor_height (legs example_hexapod) ! 0) \<le> 0"
    by (simp add: fh)
  have nn: "find_feet_on_ground example_hexapod \<noteq> Inr (None, None)"
    using find_feet_on_ground_cases [of example_hexapod] top len by simp
  from find_feet_on_ground_three_feet [OF len nn] obtain feet pivot where
    r: "find_feet_on_ground example_hexapod = Inr (Some feet, Some pivot)"
      "3 \<le> length feet" "pivot = feet ! 0" "pivot \<in> set (legs example_hexapod)"
      "\<forall>leg\<in>set (legs example_hexapod). floor_height leg \<le> floor_height pivot"
    by blast
  from r(4,5) have "floor_height pivot = 120"
    by (auto simp add: ls fh)
  with len nn r show ?thesis
    by blast
qed

end
